theory Spec2Isabelle
  imports Main
begin

section \<open>Data model (app/models.py)\<close>

text \<open>
  \<^verbatim>\<open>Language = Literal["javascript", "python"]\<close>: pydantic admits exactly these two
  strings, so a value of the type is one of two constructors. \<open>language_str\<close> is the
  Python string behind each; the service tests a language for truthiness, which for a
  string means being non-empty.
\<close>

datatype Language = Javascript | Python

fun language_str :: "Language \<Rightarrow> string" where
  "language_str Javascript = ''javascript''"
| "language_str Python = ''python''"

datatype UpdateType = Code_update | Participant_joined | Participant_left | Execution_result

text \<open>A \<^verbatim>\<open>datetime\<close> is an opaque clock reading.\<close>

type_synonym datetime = nat

text \<open>
  \<^verbatim>\<open>class Session(BaseModel)\<close>. The field \<^verbatim>\<open>id\<close> is written \<open>id'\<close> (\<open>id\<close> is HOL's
  identity function). \<^verbatim>\<open>participants\<close> is a Python \<^verbatim>\<open>int\<close>; the bound \<^verbatim>\<open>ge=0\<close> is
  checked by pydantic when a Session is validated, not by \<^verbatim>\<open>model_copy\<close>.
\<close>

record Session =
  id' :: string
  code :: string
  language :: Language
  createdAt :: datetime
  participants :: int

record CreateSessionRequest =
  create_language :: Language

record UpdateCodeRequest =
  req_code :: string
  req_language :: "Language option"

record ExecutionResult =
  res_success :: bool
  res_output :: string
  res_error :: "string option"
  res_executionTime :: int

record SessionUpdate =
  upd_type :: UpdateType
  upd_sessionId :: string
  upd_code :: "string option"
  upd_language :: "Language option"
  upd_participants :: "int option"
  upd_executionResult :: "ExecutionResult option"
  upd_timestamp :: datetime

section \<open>Session Store (app/repositories, interface used by the service)\<close>

text \<open>
  The repository classes (\<^verbatim>\<open>app/repositories/base.py\<close>, \<^verbatim>\<open>memory.py\<close>,
  \<^verbatim>\<open>postgres.py\<close>) are not among the sources; only their callers are. The five
  operations are modelled from section 4.1 of the specification over a table from ids
  to records. Every operation is one atomic step, as the specification requires of a
  conforming backend; the "storage unavailable" failure of a backend is not modelled.
  The timestamp that \<open>create\<close> sets is the clock's reading, an argument here.
\<close>

type_synonym store = "string \<rightharpoonup> Session"

text \<open>Modelled from the spec: the ids the Session Store generates (section 3: "opaque
  unique identifier ... generated by the Store on create"). The store has a fixed
  supply of pairwise different candidate ids.\<close>

definition candidate_id :: "nat \<Rightarrow> string" where
  "candidate_id n = replicate (Suc n) (CHR ''s'')"

text \<open>Modelled from the spec: the "fresh unique id" of \<^verbatim>\<open>create\<close> (section 4.1). The
  store tries its candidates in order, starting from the given one, and takes the
  first that is not in use. The search has no bound: it returns nothing only if every
  candidate from the start on is in use.\<close>

partial_function (option) first_unused :: "store \<Rightarrow> nat \<Rightarrow> nat option" where
  "first_unused st n =
     (if st (candidate_id n) = None then Some n else first_unused st (Suc n))"

text \<open>Modelled from the spec: \<^verbatim>\<open>create(language) -> Session\<close> of the Session Store
  (section 4.1): a new record with a fresh unique id generated by the store, the given
  language, empty code, participants = 0 and the current timestamp, stored under its
  id. The result is \<open>None\<close> only when the search for an id does not return.\<close>

definition repository_create ::
  "store \<Rightarrow> Language \<Rightarrow> datetime \<Rightarrow> (store \<times> Session) option" where
  "repository_create st lang now =
     (case first_unused st 0 of
        None \<Rightarrow> None
      | Some n \<Rightarrow>
          (let session = \<lparr>id' = candidate_id n, code = [], language = lang,
                           createdAt = now, participants = 0\<rparr>
           in Some (st(candidate_id n \<mapsto> session), session)))"

text \<open>Modelled from the spec: \<^verbatim>\<open>get(id) -> Session | absent\<close> of the Session Store
  (section 4.1): a pure lookup.\<close>

definition repository_get :: "store \<Rightarrow> string \<Rightarrow> Session option" where
  "repository_get st session_id = st session_id"

text \<open>Modelled from the spec: \<^verbatim>\<open>update(session) -> Session | absent\<close> of the Session
  Store (section 4.1): replaces the stored record matching the given record's id with
  the supplied full record; if the id is not stored, signals absent and stores
  nothing.\<close>

definition repository_update :: "store \<Rightarrow> Session \<Rightarrow> store \<times> Session option" where
  "repository_update st session =
     (case st (id' session) of
        None \<Rightarrow> (st, None)
      | Some _ \<Rightarrow> (st(id' session \<mapsto> session), Some session))"

text \<open>Modelled from the spec: \<^verbatim>\<open>increment_participants(id) -> Session | absent\<close> of
  the Session Store (section 4.1): adds one to the counter of the stored record, in
  one atomic step.\<close>

definition increment_participants :: "store \<Rightarrow> string \<Rightarrow> store \<times> Session option" where
  "increment_participants st session_id =
     (case st session_id of
        None \<Rightarrow> (st, None)
      | Some session \<Rightarrow>
          (let updated = session\<lparr>participants := participants session + 1\<rparr>
           in (st(session_id \<mapsto> updated), Some updated)))"

text \<open>Modelled from the spec: \<^verbatim>\<open>decrement_participants(id) -> Session | absent\<close> of
  the Session Store (section 4.1): subtracts one from the counter of the stored
  record, clamping at 0 rather than going negative, in one atomic step.\<close>

definition decrement_participants :: "store \<Rightarrow> string \<Rightarrow> store \<times> Session option" where
  "decrement_participants st session_id =
     (case st session_id of
        None \<Rightarrow> (st, None)
      | Some session \<Rightarrow>
          (let updated = session\<lparr>participants := max 0 (participants session - 1)\<rparr>
           in (st(session_id \<mapsto> updated), Some updated)))"

section \<open>Session Service (app/services/session_service.py)\<close>

text \<open>
  Each method takes the repository's state and returns it with the method's result.
  \<^verbatim>\<open>create_session\<close>'s default argument \<^verbatim>\<open>"javascript"\<close> is supplied by the caller
  (the router always passes a language).
\<close>

definition create_session ::
  "store \<Rightarrow> Language \<Rightarrow> datetime \<Rightarrow> (store \<times> Session) option" where
  "create_session st lang now = repository_create st lang now"

definition get_session :: "store \<Rightarrow> string \<Rightarrow> Session option" where
  "get_session st session_id = repository_get st session_id"

text \<open>\<^verbatim>\<open>if request.language:\<close> tests an optional string for truthiness.\<close>

fun truthy_language :: "Language option \<Rightarrow> bool" where
  "truthy_language None = False"
| "truthy_language (Some l) = (language_str l \<noteq> [])"

text \<open>
  \<^verbatim>\<open>update_code\<close>: fetch; absent gives \<^verbatim>\<open>None\<close>; otherwise the updates dictionary
  holds the code always and the language when the request's language is truthy,
  \<^verbatim>\<open>model_copy(update=updates)\<close> copies the record with those fields replaced, and
  the copy is handed to the repository's \<^verbatim>\<open>update\<close>.
\<close>

definition update_code ::
  "store \<Rightarrow> string \<Rightarrow> UpdateCodeRequest \<Rightarrow> store \<times> Session option" where
  "update_code st session_id request =
     (case repository_get st session_id of
        None \<Rightarrow> (st, None)
      | Some session \<Rightarrow>
          (let with_code = session\<lparr>code := req_code request\<rparr>;
               updated_session =
                 (case req_language request of
                    Some l \<Rightarrow>
                      if truthy_language (req_language request)
                      then with_code\<lparr>language := l\<rparr> else with_code
                  | None \<Rightarrow> with_code)
           in repository_update st updated_session))"

definition add_participant :: "store \<Rightarrow> string \<Rightarrow> store \<times> Session option" where
  "add_participant st session_id = increment_participants st session_id"

definition remove_participant :: "store \<Rightarrow> string \<Rightarrow> store \<times> Session option" where
  "remove_participant st session_id = decrement_participants st session_id"

section \<open>Transport (the WebSocket objects handed in by the framework)\<close>

text \<open>
  A \<^verbatim>\<open>WebSocket\<close> object is compared by identity (\<^verbatim>\<open>in\<close> and \<^verbatim>\<open>list.remove\<close> on the
  connection lists), so it is modelled by a number naming the object. What the
  objects do is outside the repository; the transport state records, for every
  socket, whether \<^verbatim>\<open>accept()\<close> and \<^verbatim>\<open>send_json()\<close> raise, the messages that reached
  the client (\<open>outbox\<close>, oldest first), and every \<^verbatim>\<open>send_json\<close> call made, failed or not
  (\<open>send_log\<close>). Whether a socket's calls raise is a property of the transport that
  the program's own calls do not change. Exceptions are the subclasses of
  \<^verbatim>\<open>Exception\<close>; a call that never returns is not modelled.
\<close>

type_synonym WebSocket = nat

datatype exn = AcceptError | SendError | KeyError | ValueError | HTTPException nat string

record world =
  accept_fails :: "WebSocket \<Rightarrow> bool"
  send_fails :: "WebSocket \<Rightarrow> bool"
  outbox :: "WebSocket \<Rightarrow> SessionUpdate list"
  send_log :: "(WebSocket \<times> SessionUpdate) list"

definition accept :: "world \<Rightarrow> WebSocket \<Rightarrow> exn + world" where
  "accept w websocket = (if accept_fails w websocket then Inl AcceptError else Inr w)"

text \<open>The second component is the exception raised, if any.\<close>

definition send_json :: "world \<Rightarrow> WebSocket \<Rightarrow> SessionUpdate \<Rightarrow> world \<times> exn option" where
  "send_json w websocket message =
     (let w1 = w\<lparr>send_log := send_log w @ [(websocket, message)]\<rparr>
      in if send_fails w websocket then (w1, Some SendError)
         else (w1\<lparr>outbox := (outbox w1)(websocket := outbox w1 websocket @ [message])\<rparr>,
               None))"

section \<open>Broadcast Hub (app/websocket.py, class ConnectionManager)\<close>

text \<open>
  \<^verbatim>\<open>self._connections: dict[str, list[WebSocket]]\<close>, with the three operations of
  Python's containers that raise: the subscript \<^verbatim>\<open>d[k]\<close> and \<^verbatim>\<open>del d[k]\<close> raise
  \<^verbatim>\<open>KeyError\<close> on a missing key, \<^verbatim>\<open>list.remove(x)\<close> removes the first occurrence and
  raises \<^verbatim>\<open>ValueError\<close> when there is none.
\<close>

type_synonym connections = "string \<rightharpoonup> WebSocket list"

definition dict_getitem :: "connections \<Rightarrow> string \<Rightarrow> exn + WebSocket list" where
  "dict_getitem cm k = (case cm k of None \<Rightarrow> Inl KeyError | Some l \<Rightarrow> Inr l)"

definition dict_delitem :: "connections \<Rightarrow> string \<Rightarrow> exn + connections" where
  "dict_delitem cm k = (case cm k of None \<Rightarrow> Inl KeyError | Some _ \<Rightarrow> Inr (cm(k := None)))"

definition list_remove :: "WebSocket list \<Rightarrow> WebSocket \<Rightarrow> exn + WebSocket list" where
  "list_remove l x = (if x \<in> set l then Inr (remove1 x l) else Inl ValueError)"

text \<open>
  \<^verbatim>\<open>connect\<close>: \<^verbatim>\<open>accept()\<close> first (an exception leaves the registry as it was), then
  the entry is created if missing and the socket appended.
\<close>

definition connect ::
  "connections \<Rightarrow> world \<Rightarrow> WebSocket \<Rightarrow> string \<Rightarrow> exn + (connections \<times> world)" where
  "connect cm w websocket session_id =
     (case accept w websocket of
        Inl e \<Rightarrow> Inl e
      | Inr w' \<Rightarrow>
          (let cm1 = (if cm session_id = None then cm(session_id \<mapsto> []) else cm)
           in case dict_getitem cm1 session_id of
                Inl e \<Rightarrow> Inl e
              | Inr l \<Rightarrow> Inr (cm1(session_id \<mapsto> l @ [websocket]), w')))"

text \<open>
  \<^verbatim>\<open>disconnect\<close>, statement by statement: under \<^verbatim>\<open>if session_id in
  self._connections\<close>, the membership test and the removal read the list by subscript
  (the same list: nothing runs between the two reads) and the removal updates it in
  place; the emptiness test reads the list again before \<^verbatim>\<open>del\<close>.
\<close>

definition disconnect :: "connections \<Rightarrow> WebSocket \<Rightarrow> string \<Rightarrow> exn + connections" where
  "disconnect cm websocket session_id =
     (if cm session_id \<noteq> None then
        (case dict_getitem cm session_id of
           Inl e \<Rightarrow> Inl e
         | Inr l \<Rightarrow>
             (case (if websocket \<in> set l
                    then (case list_remove l websocket of
                            Inl e \<Rightarrow> Inl e
                          | Inr l' \<Rightarrow> Inr (cm(session_id \<mapsto> l')))
                    else Inr cm) of
                Inl e \<Rightarrow> Inl e
              | Inr cm1 \<Rightarrow>
                  (case dict_getitem cm1 session_id of
                     Inl e \<Rightarrow> Inl e
                   | Inr l1 \<Rightarrow> if l1 = [] then dict_delitem cm1 session_id else Inr cm1)))
      else Inr cm)"

text \<open>\<^verbatim>\<open>self._connections.get(session_id, [])\<close>.\<close>

definition connections_get :: "connections \<Rightarrow> string \<Rightarrow> WebSocket list" where
  "connections_get cm session_id = (case cm session_id of None \<Rightarrow> [] | Some l \<Rightarrow> l)"

definition get_participant_count :: "connections \<Rightarrow> string \<Rightarrow> int" where
  "get_participant_count cm session_id = int (length (connections_get cm session_id))"

section \<open>Process state and the steps of other tasks\<close>

text \<open>
  The process-wide state: the in-memory repository singleton of \<^verbatim>\<open>app/database.py\<close>,
  the global \<^verbatim>\<open>connection_manager\<close>, and the transport.
\<close>

record system =
  repo :: store
  manager :: connections
  net :: world

text \<open>
  The handlers are coroutines on one event loop: a task runs until it reaches an
  \<^verbatim>\<open>await\<close>, and while it is suspended there, other tasks run. What another task does
  to the process state between two of its own awaits is one of the atomic steps below:
  an operation of the store, one of the hub's two synchronous mutations (\<^verbatim>\<open>connect\<close>
  after its \<^verbatim>\<open>accept()\<close>, and \<^verbatim>\<open>disconnect\<close>), or a send. An \<^verbatim>\<open>await\<close> of the task
  under study is modelled by the list of steps that other tasks take while it is
  suspended; a call with several awaits takes one such list per await, in order
  (\<open>others\<close>), and past the end of \<open>others\<close> no other task runs.
\<close>

datatype other_op =
    Other_connect WebSocket string
  | Other_disconnect WebSocket string
  | Other_add_participant string
  | Other_remove_participant string
  | Other_update Session
  | Other_create Language datetime
  | Other_send WebSocket SessionUpdate

fun other_step :: "system \<Rightarrow> other_op \<Rightarrow> system" where
  "other_step sys (Other_connect websocket session_id) =
     (case connect (manager sys) (net sys) websocket session_id of
        Inl e \<Rightarrow> sys
      | Inr (cm, w) \<Rightarrow> sys\<lparr>manager := cm, net := w\<rparr>)"
| "other_step sys (Other_disconnect websocket session_id) =
     (case disconnect (manager sys) websocket session_id of
        Inl e \<Rightarrow> sys
      | Inr cm \<Rightarrow> sys\<lparr>manager := cm\<rparr>)"
| "other_step sys (Other_add_participant session_id) =
     sys\<lparr>repo := fst (add_participant (repo sys) session_id)\<rparr>"
| "other_step sys (Other_remove_participant session_id) =
     sys\<lparr>repo := fst (remove_participant (repo sys) session_id)\<rparr>"
| "other_step sys (Other_update session) =
     sys\<lparr>repo := fst (repository_update (repo sys) session)\<rparr>"
| "other_step sys (Other_create lang now) =
     (case create_session (repo sys) lang now of
        None \<Rightarrow> sys
      | Some (st, session) \<Rightarrow> sys\<lparr>repo := st\<rparr>)"
| "other_step sys (Other_send websocket message) =
     sys\<lparr>net := fst (send_json (net sys) websocket message)\<rparr>"

fun others_run :: "system \<Rightarrow> other_op list \<Rightarrow> system" where
  "others_run sys [] = sys"
| "others_run sys (op # ops) = others_run (other_step sys op) ops"

text \<open>One \<^verbatim>\<open>await\<close>: the next list of \<open>others\<close> runs, and the rest is left.\<close>

fun await_others :: "system \<Rightarrow> other_op list list \<Rightarrow> system \<times> other_op list list" where
  "await_others sys [] = (sys, [])"
| "await_others sys (ops # others) = (others_run sys ops, others)"

section \<open>Broadcast Hub: broadcast\<close>

text \<open>
  \<^verbatim>\<open>connections = self._connections.get(session_id, [])\<close> binds the registry's own list
  object when the session has an entry, and a new empty list otherwise;
  \<^verbatim>\<open>for connection in connections\<close> then reads that object anew at every
  iteration (position \<open>i\<close> against its current length). Other tasks change the object
  through the registry while the loop is suspended in a send. When a \<^verbatim>\<open>disconnect\<close>
  deletes the entry, the object is empty and no longer the registry's: a later
  \<^verbatim>\<open>connect\<close> puts a new list in the registry, and the loop's object stays empty.
  \<open>attached\<close> says that the loop's object is still the registry's entry.
\<close>

definition loop_connections :: "system \<Rightarrow> string \<Rightarrow> bool \<Rightarrow> WebSocket list" where
  "loop_connections sys session_id attached =
     (if attached then connections_get (manager sys) session_id else [])"

text \<open>The steps of other tasks during one send, keeping track of \<open>attached\<close>.\<close>

fun others_watch ::
  "string \<Rightarrow> system \<Rightarrow> bool \<Rightarrow> other_op list \<Rightarrow> system \<times> bool" where
  "others_watch session_id sys attached [] = (sys, attached)"
| "others_watch session_id sys attached (op # ops) =
     others_watch session_id (other_step sys op)
       (attached \<and> manager (other_step sys op) session_id \<noteq> None) ops"

text \<open>
  The first loop of \<^verbatim>\<open>broadcast\<close>: at position \<open>i\<close>, if the list has an element there,
  \<^verbatim>\<open>await connection.send_json(...)\<close> (other tasks run while the send is suspended),
  \<^verbatim>\<open>except Exception\<close> catches whatever the send raises and appends the connection
  to \<^verbatim>\<open>dead_connections\<close>, and the loop goes on at position \<open>i + 1\<close>. The result is
  the state, the dead connections and what is left of \<open>others\<close>.
\<close>

function send_loop ::
  "system \<Rightarrow> string \<Rightarrow> SessionUpdate \<Rightarrow> bool \<Rightarrow> nat \<Rightarrow> WebSocket list \<Rightarrow> other_op list list
     \<Rightarrow> system \<times> WebSocket list \<times> other_op list list" where
  "send_loop sys session_id message attached i dead_connections others =
     (if i < length (loop_connections sys session_id attached) then
        (let connection = loop_connections sys session_id attached ! i;
             (w1, raised) = send_json (net sys) connection message;
             dead1 = (case raised of
                        None \<Rightarrow> dead_connections
                      | Some _ \<Rightarrow> dead_connections @ [connection]);
             (sys1, attached1) =
                others_watch session_id (sys\<lparr>net := w1\<rparr>) attached
                  (case others of [] \<Rightarrow> [] | ops # _ \<Rightarrow> ops)
         in send_loop sys1 session_id message attached1 (Suc i) dead1 (tl others))
      else (sys, dead_connections, others))"
  by pat_completeness auto
termination send_loop
  apply (relation "measures [\<lambda>(sys, sid, m, att, i, dead, others). length others,
                             \<lambda>(sys, sid, m, att, i, dead, others).
                                length (loop_connections sys sid att) - i]")
   apply simp
  subgoal for sys session_id message attached i dead_connections others
    by (cases others) (auto simp: loop_connections_def)
  done

declare send_loop.simps [simp del]

text \<open>
  The second loop of \<^verbatim>\<open>broadcast\<close>: \<^verbatim>\<open>disconnect\<close> for each dead connection. It has no
  \<^verbatim>\<open>await\<close>, so no other task runs during it.
\<close>

fun disconnect_each :: "connections \<Rightarrow> WebSocket list \<Rightarrow> string \<Rightarrow> exn + connections" where
  "disconnect_each cm [] session_id = Inr cm"
| "disconnect_each cm (dead # rest) session_id =
     (case disconnect cm dead session_id of
        Inl e \<Rightarrow> Inl e
      | Inr cm' \<Rightarrow> disconnect_each cm' rest session_id)"

text \<open>
  \<^verbatim>\<open>broadcast\<close> returns the state and what is left of \<open>others\<close>, or the exception it
  raised.
\<close>

definition broadcast ::
  "system \<Rightarrow> string \<Rightarrow> SessionUpdate \<Rightarrow> other_op list list
     \<Rightarrow> exn + (system \<times> other_op list list)" where
  "broadcast sys session_id message others =
     (let attached = (manager sys session_id \<noteq> None);
          (sys1, dead_connections, others1) =
             send_loop sys session_id message attached 0 [] others
      in case disconnect_each (manager sys1) dead_connections session_id of
           Inl e \<Rightarrow> Inl e
         | Inr cm' \<Rightarrow> Inr (sys1\<lparr>manager := cm'\<rparr>, others1))"

definition code_update_event :: "string \<Rightarrow> string \<Rightarrow> Language \<Rightarrow> datetime \<Rightarrow> SessionUpdate" where
  "code_update_event session_id c l now =
     \<lparr>upd_type = Code_update, upd_sessionId = session_id, upd_code = Some c,
      upd_language = Some l, upd_participants = None, upd_executionResult = None,
      upd_timestamp = now\<rparr>"

definition participant_joined_event :: "string \<Rightarrow> int \<Rightarrow> datetime \<Rightarrow> SessionUpdate" where
  "participant_joined_event session_id participant_count now =
     \<lparr>upd_type = Participant_joined, upd_sessionId = session_id, upd_code = None,
      upd_language = None, upd_participants = Some participant_count,
      upd_executionResult = None, upd_timestamp = now\<rparr>"

definition participant_left_event :: "string \<Rightarrow> int \<Rightarrow> datetime \<Rightarrow> SessionUpdate" where
  "participant_left_event session_id participant_count now =
     \<lparr>upd_type = Participant_left, upd_sessionId = session_id, upd_code = None,
      upd_language = None, upd_participants = Some participant_count,
      upd_executionResult = None, upd_timestamp = now\<rparr>"

definition execution_result_event ::
  "string \<Rightarrow> ExecutionResult \<Rightarrow> datetime \<Rightarrow> SessionUpdate" where
  "execution_result_event session_id result now =
     \<lparr>upd_type = Execution_result, upd_sessionId = session_id, upd_code = None,
      upd_language = None, upd_participants = None, upd_executionResult = Some result,
      upd_timestamp = now\<rparr>"

definition broadcast_code_update ::
  "system \<Rightarrow> string \<Rightarrow> string \<Rightarrow> Language \<Rightarrow> datetime \<Rightarrow> other_op list list
     \<Rightarrow> exn + (system \<times> other_op list list)" where
  "broadcast_code_update sys session_id c l now others =
     broadcast sys session_id (code_update_event session_id c l now) others"

definition broadcast_participant_joined ::
  "system \<Rightarrow> string \<Rightarrow> int \<Rightarrow> datetime \<Rightarrow> other_op list list
     \<Rightarrow> exn + (system \<times> other_op list list)" where
  "broadcast_participant_joined sys session_id participant_count now others =
     broadcast sys session_id
       (participant_joined_event session_id participant_count now) others"

definition broadcast_participant_left ::
  "system \<Rightarrow> string \<Rightarrow> int \<Rightarrow> datetime \<Rightarrow> other_op list list
     \<Rightarrow> exn + (system \<times> other_op list list)" where
  "broadcast_participant_left sys session_id participant_count now others =
     broadcast sys session_id
       (participant_left_event session_id participant_count now) others"

definition broadcast_execution_result ::
  "system \<Rightarrow> string \<Rightarrow> ExecutionResult \<Rightarrow> datetime \<Rightarrow> other_op list list
     \<Rightarrow> exn + (system \<times> other_op list list)" where
  "broadcast_execution_result sys session_id result now others =
     broadcast sys session_id (execution_result_event session_id result now) others"

section \<open>Gateway (app/main.py, app/routers/sessions.py)\<close>

text \<open>
  \<^verbatim>\<open>websocket_endpoint\<close> is one coroutine per socket. It is modelled by its two
  straight-line parts: the part before the receive loop
  (\<open>websocket_endpoint_connect\<close>, lines 98 to 117) and the \<^verbatim>\<open>finally\<close> block that runs
  when the receive loop ends (\<open>websocket_endpoint_finally\<close>, lines 127 to 138). Each
  part takes \<open>others\<close>: one list of steps of other tasks for each of its awaits, the
  sends of its broadcast last. \<^verbatim>\<open>connect\<close> reads the registry only after its
  \<^verbatim>\<open>accept()\<close> has returned, so what other tasks do during \<^verbatim>\<open>accept()\<close> is the same as
  their doing it before \<^verbatim>\<open>connect\<close> is called, at the await before.
\<close>

datatype endpoint_result = Closed nat | Raised exn | Receiving | Returned

definition WS_1008_POLICY_VIOLATION :: nat where
  "WS_1008_POLICY_VIOLATION = 1008"

text \<open>\<^verbatim>\<open>updated_session.participants if updated_session else 0\<close>.\<close>

definition participants_or_0 :: "Session option \<Rightarrow> int" where
  "participants_or_0 updated_session =
     (case updated_session of Some s \<Rightarrow> participants s | None \<Rightarrow> 0)"

definition websocket_endpoint_connect ::
  "system \<Rightarrow> WebSocket \<Rightarrow> string \<Rightarrow> datetime \<Rightarrow> other_op list list
     \<Rightarrow> system \<times> endpoint_result" where
  "websocket_endpoint_connect sys websocket session_id now others =
     (let session = get_session (repo sys) session_id;
          (sys1, others1) = await_others sys others
      in case session of
           None \<Rightarrow> (sys1, Closed WS_1008_POLICY_VIOLATION)
         | Some _ \<Rightarrow>
             (case connect (manager sys1) (net sys1) websocket session_id of
                Inl e \<Rightarrow> (sys1, Raised e)
              | Inr (cm1, w1) \<Rightarrow>
                  (let (sys2, others2) =
                         await_others (sys1\<lparr>manager := cm1, net := w1\<rparr>) others1;
                       (st1, _) = add_participant (repo sys2) session_id;
                       (sys3, others3) = await_others (sys2\<lparr>repo := st1\<rparr>) others2;
                       updated_session = get_session (repo sys3) session_id;
                       (sys4, others4) = await_others sys3 others3;
                       participant_count = participants_or_0 updated_session
                   in case broadcast_participant_joined sys4 session_id participant_count
                             now others4 of
                        Inl e \<Rightarrow> (sys4, Raised e)
                      | Inr (sys5, _) \<Rightarrow> (sys5, Receiving))))"

definition websocket_endpoint_finally ::
  "system \<Rightarrow> WebSocket \<Rightarrow> string \<Rightarrow> datetime \<Rightarrow> other_op list list
     \<Rightarrow> system \<times> endpoint_result" where
  "websocket_endpoint_finally sys websocket session_id now others =
     (case disconnect (manager sys) websocket session_id of
        Inl e \<Rightarrow> (sys, Raised e)
      | Inr cm1 \<Rightarrow>
          (let (sys1, others1) = await_others (sys\<lparr>manager := cm1\<rparr>) others;
               (st1, _) = remove_participant (repo sys1) session_id;
               (sys2, others2) = await_others (sys1\<lparr>repo := st1\<rparr>) others1;
               updated_session = get_session (repo sys2) session_id;
               (sys3, others3) = await_others sys2 others2;
               participant_count = participants_or_0 updated_session
           in case broadcast_participant_left sys3 session_id participant_count
                     now others3 of
                Inl e \<Rightarrow> (sys3, Raised e)
              | Inr (sys4, _) \<Rightarrow> (sys4, Returned)))"

text \<open>
  The service's \<^verbatim>\<open>update_code\<close> as the router awaits it: the same three statements
  as \<open>update_code\<close> above, with the steps of other tasks at its two awaits (after the
  repository's \<^verbatim>\<open>get\<close> and after its \<^verbatim>\<open>update\<close>). The record handed to \<^verbatim>\<open>update\<close> is
  the copy of the session as it was fetched.
\<close>

definition update_code_others ::
  "system \<Rightarrow> string \<Rightarrow> UpdateCodeRequest \<Rightarrow> other_op list list
     \<Rightarrow> system \<times> Session option \<times> other_op list list" where
  "update_code_others sys session_id request others =
     (let fetched = repository_get (repo sys) session_id;
          (sys1, others1) = await_others sys others
      in case fetched of
           None \<Rightarrow> (sys1, None, others1)
         | Some session \<Rightarrow>
             (let with_code = session\<lparr>code := req_code request\<rparr>;
                  updated_session =
                    (case req_language request of
                       Some l \<Rightarrow>
                         if truthy_language (req_language request)
                         then with_code\<lparr>language := l\<rparr> else with_code
                     | None \<Rightarrow> with_code);
                  (st2, result) = repository_update (repo sys1) updated_session;
                  (sys2, others2) = await_others (sys1\<lparr>repo := st2\<rparr>) others1
              in (sys2, result, others2)))"

text \<open>
  The REST handlers. A handler returns the response (or the \<^verbatim>\<open>HTTPException\<close> it
  raised), the background tasks it added and what is left of \<open>others\<close>; the framework
  runs the tasks, in the order added, after the response is sent.
\<close>

datatype background_task =
    Broadcast_code_update_task string string Language
  | Broadcast_execution_result_task string ExecutionResult

definition session_not_found :: exn where
  "session_not_found = HTTPException 404 ''SESSION_NOT_FOUND''"

definition sessions_create_session ::
  "system \<Rightarrow> CreateSessionRequest option \<Rightarrow> datetime \<Rightarrow> system \<times> Session option" where
  "sessions_create_session sys request now =
     (let lang = (case request of Some r \<Rightarrow> create_language r | None \<Rightarrow> Javascript)
      in case create_session (repo sys) lang now of
           None \<Rightarrow> (sys, None)
         | Some (st1, session) \<Rightarrow> (sys\<lparr>repo := st1\<rparr>, Some session))"

definition sessions_get_session :: "system \<Rightarrow> string \<Rightarrow> exn + Session" where
  "sessions_get_session sys session_id =
     (case get_session (repo sys) session_id of
        None \<Rightarrow> Inl session_not_found
      | Some session \<Rightarrow> Inr session)"

definition sessions_update_code ::
  "system \<Rightarrow> string \<Rightarrow> UpdateCodeRequest \<Rightarrow> other_op list list
     \<Rightarrow> system \<times> (exn + Session) \<times> background_task list \<times> other_op list list" where
  "sessions_update_code sys session_id request others =
     (case update_code_others sys session_id request others of
        (sys1, None, others1) \<Rightarrow> (sys1, Inl session_not_found, [], others1)
      | (sys1, Some session, others1) \<Rightarrow>
          (sys1, Inr session,
           [Broadcast_code_update_task session_id (code session) (language session)],
           others1))"

fun run_background_task ::
  "system \<Rightarrow> background_task \<Rightarrow> datetime \<Rightarrow> other_op list list
     \<Rightarrow> system \<times> other_op list list" where
  "run_background_task sys (Broadcast_code_update_task session_id c l) now others =
     (case broadcast_code_update sys session_id c l now others of
        Inl e \<Rightarrow> (sys, others)
      | Inr (sys1, others1) \<Rightarrow> (sys1, others1))"
| "run_background_task sys (Broadcast_execution_result_task session_id result) now others =
     (case broadcast_execution_result sys session_id result now others of
        Inl e \<Rightarrow> (sys, others)
      | Inr (sys1, others1) \<Rightarrow> (sys1, others1))"

fun run_background_tasks ::
  "system \<Rightarrow> background_task list \<Rightarrow> datetime \<Rightarrow> other_op list list \<Rightarrow> system" where
  "run_background_tasks sys [] now others = sys"
| "run_background_tasks sys (task # tasks) now others =
     (case run_background_task sys task now others of
        (sys1, others1) \<Rightarrow> run_background_tasks sys1 tasks now others1)"

text \<open>One whole \<^verbatim>\<open>PUT /sessions/{session_id}/code\<close> request: handler, then tasks.\<close>

definition put_code ::
  "system \<Rightarrow> string \<Rightarrow> UpdateCodeRequest \<Rightarrow> datetime \<Rightarrow> other_op list list
     \<Rightarrow> system \<times> (exn + Session)" where
  "put_code sys session_id request now others =
     (case sessions_update_code sys session_id request others of
        (sys1, response, tasks, others1) \<Rightarrow>
          (run_background_tasks sys1 tasks now others1, response))"

section \<open>Predicates and runs used by the theorems\<close>

text \<open>The registry never maps a session id to an empty connection list.\<close>

definition hub_inv :: "connections \<Rightarrow> bool" where
  "hub_inv cm = (\<forall>session_id. cm session_id \<noteq> Some [])"

text \<open>Every stored counter is non-negative.\<close>

definition store_nonneg :: "store \<Rightarrow> bool" where
  "store_nonneg st = (\<forall>session_id s. st session_id = Some s \<longrightarrow> 0 \<le> participants s)"

text \<open>
  The calls a client of the Session Service can make, and a run of them in the order
  the store serves them.
\<close>

datatype service_call =
    Create_session Language datetime
  | Update_code string UpdateCodeRequest
  | Add_participant string
  | Remove_participant string

fun service_step :: "store \<Rightarrow> service_call \<Rightarrow> store" where
  "service_step st (Create_session lang now) =
     (case create_session st lang now of None \<Rightarrow> st | Some (st', _) \<Rightarrow> st')"
| "service_step st (Update_code session_id request) = fst (update_code st session_id request)"
| "service_step st (Add_participant session_id) = fst (add_participant st session_id)"
| "service_step st (Remove_participant session_id) = fst (remove_participant st session_id)"

fun service_run :: "store \<Rightarrow> service_call list \<Rightarrow> store" where
  "service_run st [] = st"
| "service_run st (c # cs) = service_run (service_step st c) cs"

text \<open>
  An interleaving of concurrent counter calls on one session id: the calls are atomic,
  so an interleaving is the order in which the store serves them.
\<close>

datatype counter_call = Increment | Decrement

fun counter_step :: "store \<Rightarrow> string \<Rightarrow> counter_call \<Rightarrow> store" where
  "counter_step st session_id Increment = fst (add_participant st session_id)"
| "counter_step st session_id Decrement = fst (remove_participant st session_id)"

fun counter_run :: "store \<Rightarrow> string \<Rightarrow> counter_call list \<Rightarrow> store" where
  "counter_run st session_id [] = st"
| "counter_run st session_id (c # cs) = counter_run (counter_step st session_id c) session_id cs"

text \<open>
  \<open>never_clamped n calls\<close>: starting from the count \<open>n\<close>, every decrement of the run
  finds the counter positive.
\<close>

fun never_clamped :: "int \<Rightarrow> counter_call list \<Rightarrow> bool" where
  "never_clamped n [] = True"
| "never_clamped n (Increment # cs) = never_clamped (n + 1) cs"
| "never_clamped n (Decrement # cs) = (0 < n \<and> never_clamped (n - 1) cs)"


text \<open>The hub's count and the store's counter agree for a session id.\<close>

definition counts_agree :: "system \<Rightarrow> string \<Rightarrow> bool" where
  "counts_agree sys session_id =
     (get_participant_count (manager sys) session_id
        = participants_or_0 (get_session (repo sys) session_id))"

text \<open>
  The send loop over a list that no other task changes: one send per element, in
  order, with the connections whose send raised collected.
\<close>

fun send_each ::
  "world \<Rightarrow> WebSocket list \<Rightarrow> SessionUpdate \<Rightarrow> WebSocket list \<Rightarrow> world \<times> WebSocket list" where
  "send_each w [] message dead_connections = (w, dead_connections)"
| "send_each w (connection # rest) message dead_connections =
     (case send_json w connection message of
        (w', None) \<Rightarrow> send_each w' rest message dead_connections
      | (w', Some _) \<Rightarrow> send_each w' rest message (dead_connections @ [connection]))"

text \<open>
  The sequences the Gateway serves, each with the steps other tasks take at its
  awaits: a socket arriving, a socket's receive loop ending, and a \<^verbatim>\<open>PUT\<close> of new
  code. A run serves the sequences in the order listed.
  \<open>closes_registered sys evs\<close>: along the run \<open>evs\<close> from \<open>sys\<close>, every \<^verbatim>\<open>finally\<close>
  block runs for a socket that is registered for its session at that moment.
  \<open>uninterrupted evs\<close>: no other task takes a step during a sequence of \<open>evs\<close>; the
  sequences are served one at a time.
\<close>

datatype gateway_event =
    Socket_connect WebSocket string datetime "other_op list list"
  | Socket_finally WebSocket string datetime "other_op list list"
  | Put_code string UpdateCodeRequest datetime "other_op list list"

fun gateway_step :: "system \<Rightarrow> gateway_event \<Rightarrow> system" where
  "gateway_step sys (Socket_connect websocket session_id now others) =
     fst (websocket_endpoint_connect sys websocket session_id now others)"
| "gateway_step sys (Socket_finally websocket session_id now others) =
     fst (websocket_endpoint_finally sys websocket session_id now others)"
| "gateway_step sys (Put_code session_id request now others) =
     fst (put_code sys session_id request now others)"

fun gateway_run :: "system \<Rightarrow> gateway_event list \<Rightarrow> system" where
  "gateway_run sys [] = sys"
| "gateway_run sys (ev # evs) = gateway_run (gateway_step sys ev) evs"




text \<open>Concrete inputs for the examples below.\<close>

definition quiet_world :: world where
  "quiet_world = \<lparr>accept_fails = (\<lambda>_. False), send_fails = (\<lambda>_. False),
                   outbox = (\<lambda>_. []), send_log = []\<rparr>"

definition broken_world :: "WebSocket \<Rightarrow> world" where
  "broken_world c = \<lparr>accept_fails = (\<lambda>_. False), send_fails = (\<lambda>x. x = c),
                      outbox = (\<lambda>_. []), send_log = []\<rparr>"

definition three_subscribers :: connections where
  "three_subscribers = [''s1'' \<mapsto> [1, 2, 3]]"

definition fresh_store :: store where
  "fresh_store =
     [''s1'' \<mapsto> \<lparr>id' = ''s1'', code = [], language = Python, createdAt = 0,
                    participants = 0\<rparr>]"

definition fresh_system :: "world \<Rightarrow> system" where
  "fresh_system w = \<lparr>repo = fresh_store, manager = Map.empty, net = w\<rparr>"

definition subscribed_system :: "world \<Rightarrow> system" where
  "subscribed_system w = \<lparr>repo = fresh_store, manager = three_subscribers, net = w\<rparr>"

definition skipping_broadcast :: "exn + (system \<times> other_op list list)" where
  "skipping_broadcast =
     broadcast (subscribed_system (broken_world 1)) ''s1''
       (code_update_event ''s1'' ''x = 1'' Python 9) [[Other_disconnect 1 ''s1'']]"

definition example_run :: "gateway_event list" where
  "example_run =
     [Socket_connect 1 ''s1'' 1 [], Socket_connect 2 ''s1'' 2 [],
      Put_code ''s1'' \<lparr>req_code = ''print(1)'', req_language = None\<rparr> 3 [],
      Socket_finally 1 ''s1'' 4 []]"


text \<open>
  One socket connected to the session, and a \<^verbatim>\<open>PUT\<close> during which that socket's
  \<^verbatim>\<open>finally\<close> block runs its \<^verbatim>\<open>disconnect\<close> and its decrement while the handler is
  suspended after fetching the session.
\<close>

definition connected_system :: system where
  "connected_system = gateway_run (fresh_system quiet_world) [Socket_connect 1 ''s1'' 1 []]"

definition interleaved_put :: system where
  "interleaved_put =
     fst (put_code connected_system ''s1'' \<lparr>req_code = ''print(1)'', req_language = None\<rparr> 3
            [[Other_disconnect 1 ''s1'', Other_remove_participant ''s1'']])"

section \<open>Session Service: code updates\<close>

lemma update_code_stored:
  assumes "get_session st (id' s) = Some s"
  shows "update_code st (id' s) request =
           (let s' = s\<lparr>code := req_code request,
                        language := (case req_language request of
                                       Some l \<Rightarrow> l | None \<Rightarrow> language s)\<rparr>
            in (st(id' s \<mapsto> s'), Some s'))"
proof (cases "req_language request")
  case None
  with assms show ?thesis
    by (simp add: update_code_def get_session_def repository_get_def repository_update_def
        Let_def)
next
  case (Some l)
  have "language_str l \<noteq> []" by (cases l) simp_all
  with Some assms show ?thesis
    by (simp add: update_code_def get_session_def repository_get_def repository_update_def
        Let_def)
qed

text \<open>
  C4. For a session \<open>s\<close> stored under its id, \<open>update_code\<close> on that id returns a
  session, which is also the one stored afterwards, whose code is the request's code,
  whose language is the request's language when one is supplied and the language of
  \<open>s\<close> when none is, and whose id and creation timestamp (and participant counter) are
  those of \<open>s\<close>.
\<close>

theorem update_code_merge:
  assumes "get_session st (id' s) = Some s"
  shows "\<exists>s'. snd (update_code st (id' s) request) = Some s'
            \<and> get_session (fst (update_code st (id' s) request)) (id' s) = Some s'
            \<and> code s' = req_code request
            \<and> language s' = (case req_language request of
                               Some l \<Rightarrow> l | None \<Rightarrow> language s)
            \<and> id' s' = id' s
            \<and> createdAt s' = createdAt s
            \<and> participants s' = participants s"
  using update_code_stored [OF assms, of request]
  by (simp add: Let_def get_session_def repository_get_def)

theorem update_code_merge_witness:
  "get_session fresh_store ''s1''
     = Some \<lparr>id' = ''s1'', code = [], language = Python, createdAt = 0, participants = 0\<rparr>
   \<and> (\<exists>s'. snd (update_code fresh_store ''s1''
                   \<lparr>req_code = ''print(1)'', req_language = None\<rparr>) = Some s'
         \<and> code s' = ''print(1)'' \<and> language s' = Python
         \<and> id' s' = ''s1'' \<and> createdAt s' = 0)"
proof -
  let ?s = "\<lparr>id' = ''s1'', code = [], language = Python, createdAt = 0, participants = 0\<rparr>"
  have g: "get_session fresh_store (id' ?s) = Some ?s"
    by (simp add: fresh_store_def get_session_def
        repository_get_def Let_def)
  from update_code_merge [OF g, of "\<lparr>req_code = ''print(1)'', req_language = None\<rparr>"] g
  show ?thesis by auto
qed

text \<open>
  C8. When no session is stored under the id, the \<^verbatim>\<open>PUT\<close> handler raises the
  not-found \<^verbatim>\<open>HTTPException\<close> and adds no background task, and the state it leaves
  is the state as other tasks made it during the handler's one await: the request
  itself stores nothing, registers nothing and sends nothing. With no other task
  running, the whole system (store, registry, transport) is as it was, for the
  handler and for the complete request.
\<close>

theorem update_code_not_found:
  assumes "get_session (repo sys) session_id = None"
  shows "sessions_update_code sys session_id request others
           = (fst (await_others sys others), Inl session_not_found, [],
              snd (await_others sys others))
         \<and> put_code sys session_id request now others
           = (fst (await_others sys others), Inl session_not_found)
         \<and> sessions_update_code sys session_id request [] = (sys, Inl session_not_found, [], [])
         \<and> put_code sys session_id request now [] = (sys, Inl session_not_found)"
  using assms
  by (simp add: sessions_update_code_def put_code_def update_code_others_def get_session_def
      split_beta)

theorem update_code_not_found_witness:
  "get_session (repo (fresh_system quiet_world)) ''never-created'' = None
   \<and> put_code (fresh_system quiet_world) ''never-created''
        \<lparr>req_code = ''x'', req_language = Some Python\<rparr> 3 []
       = (fresh_system quiet_world, Inl (HTTPException 404 ''SESSION_NOT_FOUND''))"
proof -
  have g: "get_session (repo (fresh_system quiet_world)) ''never-created'' = None"
    by (simp add: fresh_system_def fresh_store_def get_session_def repository_get_def)
  from update_code_not_found [OF g] g show ?thesis
    by (simp add: session_not_found_def)
qed

section \<open>Session Store: creation and the participant counter\<close>

lemma candidate_id_inj: "candidate_id m = candidate_id n \<Longrightarrow> m = n"
proof -
  assume "candidate_id m = candidate_id n"
  then have "length (candidate_id m) = length (candidate_id n)" by simp
  then show "m = n" by (simp add: candidate_id_def)
qed

lemma first_unused_is_unused:
  assumes "first_unused st n = Some r"
  shows "st (candidate_id r) = None"
proof (rule first_unused.raw_induct
         [where P = "\<lambda>st n r. st (candidate_id r) = None", OF _ assms])
  fix f :: "store \<Rightarrow> nat \<Rightarrow> nat option" and st n r
  assume "\<And>st n r. f st n = Some r \<Longrightarrow> st (candidate_id r) = None"
    and "(if st (candidate_id n) = None then Some n else f st (Suc n)) = Some r"
  then show "st (candidate_id r) = None"
    by (auto split: if_splits)
qed

lemma first_unused_returns:
  assumes "\<forall>m\<ge>B. st (candidate_id m) = None"
  shows "\<exists>r. first_unused st n = Some r"
proof (induction "B - n" arbitrary: n)
  case 0
  then have "B \<le> n" by simp
  with assms have "st (candidate_id n) = None" by simp
  then show ?case by (subst first_unused.simps) simp
next
  case (Suc k)
  show ?case
  proof (cases "st (candidate_id n) = None")
    case True
    then show ?thesis by (subst first_unused.simps) simp
  next
    case False
    from Suc.hyps(2) have "k = B - Suc n" by simp
    then obtain r where "first_unused st (Suc n) = Some r" using Suc.hyps(1) by blast
    with False show ?thesis by (subst first_unused.simps) simp
  qed
qed

lemma finite_store_leaves_candidates:
  assumes "finite (dom st)"
  shows "\<exists>B. \<forall>m\<ge>B. st (candidate_id m) = None"
proof -
  have "inj candidate_id" by (rule injI) (rule candidate_id_inj)
  then have "finite (candidate_id -` dom st)"
    using assms by (simp add: finite_vimageI)
  then obtain B where B: "\<forall>m \<in> candidate_id -` dom st. m < B"
    using finite_nat_set_iff_bounded by blast
  have "st (candidate_id m) = None" if "B \<le> m" for m
  proof (rule ccontr)
    assume "st (candidate_id m) \<noteq> None"
    then have "m \<in> candidate_id -` dom st" by (simp add: dom_def)
    with B have "m < B" by blast
    with that show False by simp
  qed
  then show ?thesis by blast
qed

lemma create_session_is_fresh:
  "create_session st L now = Some (st', s) \<Longrightarrow>
     st (id' s) = None \<and> st' = st(id' s \<mapsto> s)
     \<and> code s = [] \<and> participants s = 0 \<and> language s = L \<and> createdAt s = now"
  by (auto simp: create_session_def repository_create_def Let_def first_unused_is_unused
      split: option.splits)

lemma create_session_returns:
  "finite (dom st) \<Longrightarrow> \<exists>st' s. create_session st L now = Some (st', s)"
  using finite_store_leaves_candidates [of st] first_unused_returns [of _ st 0]
  by (auto simp: create_session_def repository_create_def Let_def split: option.splits)

text \<open>
  C9. On a store holding finitely many sessions, \<open>create_session\<close> with language \<open>L\<close>
  returns a session with empty code, zero participants, language \<open>L\<close> and the
  current timestamp. Its id is fresh: no session was stored under it. The session is
  stored under its id, every stored session is kept as it was, and the store again
  holds finitely many sessions. Its id is unique: whatever a later create on the new
  store returns has a different id.
\<close>

theorem create_session_fields:
  assumes "finite (dom st)"
  shows "\<exists>st' s. create_session st L now = Some (st', s)
           \<and> code s = [] \<and> participants s = 0 \<and> language s = L \<and> createdAt s = now
           \<and> get_session st (id' s) = None
           \<and> get_session st' (id' s) = Some s
           \<and> (\<forall>k s0. get_session st k = Some s0 \<longrightarrow> get_session st' k = Some s0)
           \<and> finite (dom st')
           \<and> (\<forall>L2 now2 st2 s2. create_session st' L2 now2 = Some (st2, s2) \<longrightarrow>
                 id' s2 \<noteq> id' s)"
proof -
  from create_session_returns [OF assms]
  obtain st' s where c: "create_session st L now = Some (st', s)" by blast
  note f = create_session_is_fresh [OF c]
  have later: "id' s2 \<noteq> id' s" if "create_session st' L2 now2 = Some (st2, s2)"
    for L2 now2 st2 s2
  proof
    assume "id' s2 = id' s"
    with create_session_is_fresh [OF that] have "st' (id' s) = None" by simp
    with f show False by simp
  qed
  from c f assms later show ?thesis
    by (auto simp: get_session_def repository_get_def)
qed

theorem create_session_fields_witness:
  "finite (dom fresh_store)
   \<and> create_session fresh_store Javascript 7
       = Some (fresh_store(''s'' \<mapsto>
                 \<lparr>id' = ''s'', code = [], language = Javascript, createdAt = 7,
                  participants = 0\<rparr>),
               \<lparr>id' = ''s'', code = [], language = Javascript, createdAt = 7,
                participants = 0\<rparr>)
   \<and> get_session fresh_store ''s'' = None
   \<and> (\<exists>st' s. create_session fresh_store Javascript 7 = Some (st', s)
         \<and> get_session st' ''s1''
             = Some \<lparr>id' = ''s1'', code = [], language = Python, createdAt = 0,
                     participants = 0\<rparr>
         \<and> finite (dom st'))"
proof -
  have fin: "finite (dom fresh_store)" by (simp add: fresh_store_def)
  have u: "first_unused fresh_store 0 = Some 0"
    by (subst first_unused.simps) (simp add: fresh_store_def candidate_id_def)
  have c: "create_session fresh_store Javascript 7
       = Some (fresh_store(''s'' \<mapsto>
                 \<lparr>id' = ''s'', code = [], language = Javascript, createdAt = 7,
                  participants = 0\<rparr>),
               \<lparr>id' = ''s'', code = [], language = Javascript, createdAt = 7,
                participants = 0\<rparr>)"
    by (simp add: create_session_def repository_create_def u candidate_id_def Let_def)
  have g: "get_session fresh_store ''s1''
             = Some \<lparr>id' = ''s1'', code = [], language = Python, createdAt = 0,
                     participants = 0\<rparr>"
    by (simp add: fresh_store_def get_session_def repository_get_def)
  have n: "get_session fresh_store ''s'' = None"
    by (simp add: fresh_store_def get_session_def repository_get_def)
  from create_session_fields [OF fin, of Javascript 7] fin c g n
  show ?thesis by auto
qed

lemma service_step_nonneg:
  "store_nonneg st \<Longrightarrow> store_nonneg (service_step st c)"
proof (cases c)
  case (Create_session lang now)
  assume "store_nonneg st"
  with Create_session show ?thesis
    by (auto simp: store_nonneg_def create_session_def repository_create_def Let_def
        split: if_splits option.splits)
next
  case (Update_code sid request)
  assume "store_nonneg st"
  with Update_code show ?thesis
    by (auto simp: store_nonneg_def update_code_def repository_get_def repository_update_def
        Let_def split: option.splits if_splits)
next
  case (Add_participant sid)
  assume "store_nonneg st"
  with Add_participant show ?thesis
    by (fastforce simp: store_nonneg_def add_participant_def increment_participants_def
        Let_def split: option.splits if_splits)
next
  case (Remove_participant sid)
  assume "store_nonneg st"
  with Remove_participant show ?thesis
    by (auto simp: store_nonneg_def remove_participant_def decrement_participants_def
        Let_def split: option.splits if_splits)
qed

lemma service_run_nonneg:
  "store_nonneg st \<Longrightarrow> store_nonneg (service_run st cs)"
  by (induction cs arbitrary: st) (simp_all add: service_step_nonneg)

lemma decrement_participants_clamps:
  "snd (decrement_participants st sid) = Some s' \<Longrightarrow> 0 \<le> participants s'"
  by (auto simp: decrement_participants_def Let_def split: option.splits)

lemma decrement_participants_at_zero:
  "st sid = Some s \<Longrightarrow> participants s = 0 \<Longrightarrow>
     participants_or_0 (get_session (fst (decrement_participants st sid)) sid) = 0"
  by (simp add: decrement_participants_def Let_def participants_or_0_def get_session_def
      repository_get_def)

text \<open>
  C3. Starting from a store whose counters are all non-negative (the empty store is
  one), every run of service calls (creations, code updates, increments and
  decrements, in any number and order) ends in a store whose counters are all
  non-negative. A decrement returns a session with a non-negative counter whatever
  the store held, and a decrement of a counter that is 0 leaves it at 0.
\<close>

theorem participants_never_negative:
  assumes "store_nonneg st"
  shows "store_nonneg (service_run st calls)
         \<and> (\<forall>s'. snd (remove_participant st session_id) = Some s' \<longrightarrow> 0 \<le> participants s')
         \<and> (\<forall>s. st session_id = Some s \<and> participants s = 0 \<longrightarrow>
               participants_or_0
                 (get_session (fst (remove_participant st session_id)) session_id) = 0)"
  using assms
  by (simp add: service_run_nonneg remove_participant_def decrement_participants_clamps
      decrement_participants_at_zero)

theorem participants_never_negative_witness:
  "store_nonneg fresh_store
   \<and> store_nonneg (service_run fresh_store
        [Add_participant ''s1'', Remove_participant ''s1'', Remove_participant ''s1'',
         Remove_participant ''s1''])
   \<and> participants_or_0 (get_session (service_run fresh_store
        [Add_participant ''s1'', Remove_participant ''s1'', Remove_participant ''s1'',
         Remove_participant ''s1'']) ''s1'') = 0
   \<and> fresh_store ''s1''
       = Some \<lparr>id' = ''s1'', code = [], language = Python, createdAt = 0, participants = 0\<rparr>
   \<and> snd (remove_participant fresh_store ''s1'')
       = Some \<lparr>id' = ''s1'', code = [], language = Python, createdAt = 0, participants = 0\<rparr>
   \<and> participants_or_0 (get_session (fst (remove_participant fresh_store ''s1'')) ''s1'') = 0"
proof -
  let ?s = "\<lparr>id' = ''s1'', code = [], language = Python, createdAt = 0, participants = 0\<rparr>"
  have e: "store_nonneg fresh_store"
    by (simp add: store_nonneg_def fresh_store_def
        Let_def)
  have f: "fresh_store ''s1'' = Some ?s"
    by (simp add: fresh_store_def Let_def)
  have r: "snd (remove_participant fresh_store ''s1'') = Some ?s"
    by (simp add: f remove_participant_def decrement_participants_def Let_def)
  have v: "participants_or_0 (get_session (service_run fresh_store
        [Add_participant ''s1'', Remove_participant ''s1'', Remove_participant ''s1'',
         Remove_participant ''s1'']) ''s1'') = 0"
    by (simp add: f get_session_def repository_get_def Let_def add_participant_def
        remove_participant_def increment_participants_def decrement_participants_def
        participants_or_0_def)
  note t = participants_never_negative
    [OF e, of "[Add_participant ''s1'', Remove_participant ''s1'', Remove_participant ''s1'',
                Remove_participant ''s1'']" "''s1''"]
  from t have a: "store_nonneg (service_run fresh_store
        [Add_participant ''s1'', Remove_participant ''s1'', Remove_participant ''s1'',
         Remove_participant ''s1''])"
    by (rule conjunct1)
  from t f have z:
    "participants_or_0 (get_session (fst (remove_participant fresh_store ''s1'')) ''s1'') = 0"
    by simp
  from e a v f r z show ?thesis by (intro conjI)
qed

lemma counter_step_present:
  "st sid = Some s \<Longrightarrow>
     counter_step st sid c sid =
       Some (s\<lparr>participants := (case c of Increment \<Rightarrow> participants s + 1
                                     | Decrement \<Rightarrow> max 0 (participants s - 1))\<rparr>)"
  by (cases c)
     (simp_all add: add_participant_def remove_participant_def increment_participants_def
        decrement_participants_def Let_def)

text \<open>
  C2 as stated fails: on a fresh session (counter 0) the interleaving that serves one
  decrement and then one increment has N = M = 1 and ends with the counter at 1, not
  at N - M = 0, because the decrement is clamped.
\<close>

theorem clamped_decrement_is_lost:
  "int (count_list [Decrement, Increment] Decrement)
     \<le> int (count_list [Decrement, Increment] Increment)
   \<and> participants_or_0
       (get_session (counter_run fresh_store ''s1'' [Decrement, Increment]) ''s1'')
       \<noteq> int (count_list [Decrement, Increment] Increment)
         - int (count_list [Decrement, Increment] Decrement)"
  by (simp add: fresh_store_def get_session_def
      repository_get_def Let_def add_participant_def remove_participant_def
      increment_participants_def decrement_participants_def participants_or_0_def)

text \<open>
  C2, amended. For a stored session and every interleaving of N increments and M
  decrements on its id in which every decrement finds the counter positive, the
  final counter is the initial counter plus N minus M: no increment or decrement is
  lost.
\<close>

theorem no_lost_update:
  assumes "st session_id = Some s"
    and "never_clamped (participants s) calls"
  shows "participants_or_0 (get_session (counter_run st session_id calls) session_id) =
           participants s + int (count_list calls Increment) - int (count_list calls Decrement)"
  using assms
proof (induction calls arbitrary: st s)
  case Nil
  then show ?case
    by (simp add: participants_or_0_def get_session_def repository_get_def)
next
  case (Cons c calls)
  show ?case
  proof (cases c)
    case Increment
    let ?s1 = "s\<lparr>participants := participants s + 1\<rparr>"
    have 1: "counter_step st session_id c session_id = Some ?s1"
      using counter_step_present [of st session_id s c] Cons.prems(1) Increment by simp
    from Cons.prems Increment have 2: "never_clamped (participants ?s1) calls" by simp
    from Cons.IH [of "counter_step st session_id c" ?s1] 1 2 Increment
    show ?thesis by simp
  next
    case Decrement
    let ?s1 = "s\<lparr>participants := max 0 (participants s - 1)\<rparr>"
    from Cons.prems Decrement have pos: "0 < participants s" by simp
    have 1: "counter_step st session_id c session_id = Some ?s1"
      using counter_step_present [of st session_id s c] Cons.prems(1) Decrement by simp
    from Cons.prems Decrement pos have 2: "never_clamped (participants ?s1) calls" by simp
    from Cons.IH [of "counter_step st session_id c" ?s1] 1 2 Decrement pos
    show ?thesis by simp
  qed
qed

theorem no_lost_update_witness:
  "fresh_store ''s1''
     = Some \<lparr>id' = ''s1'', code = [], language = Python, createdAt = 0, participants = 0\<rparr>
   \<and> never_clamped 0 [Increment, Increment, Decrement, Increment, Decrement]
   \<and> participants_or_0 (get_session
        (counter_run fresh_store ''s1''
           [Increment, Increment, Decrement, Increment, Decrement]) ''s1'') = 1"
proof -
  let ?s = "\<lparr>id' = ''s1'', code = [], language = Python, createdAt = 0, participants = 0\<rparr>"
  have a: "fresh_store ''s1'' = Some ?s"
    by (simp add: fresh_store_def Let_def)
  have b: "never_clamped (participants ?s)
             [Increment, Increment, Decrement, Increment, Decrement]"
    by simp
  from no_lost_update
         [of fresh_store "''s1''" ?s "[Increment, Increment, Decrement, Increment, Decrement]"]
       a b
  show ?thesis by simp
qed

section \<open>Broadcast Hub: registry and fan-out\<close>

lemma disconnect_eq:
  "disconnect cm ws sid =
     Inr (case cm sid of
            None \<Rightarrow> cm
          | Some l \<Rightarrow> if remove1 ws l = [] then cm(sid := None) else cm(sid \<mapsto> remove1 ws l))"
  by (auto simp: disconnect_def dict_getitem_def dict_delitem_def list_remove_def remove1_idem
      split: option.splits)

lemma connect_eq:
  "connect cm w ws sid =
     (if accept_fails w ws then Inl AcceptError
      else Inr (cm(sid \<mapsto> connections_get cm sid @ [ws]), w))"
  by (auto simp: connect_def accept_def dict_getitem_def connections_get_def Let_def
      split: option.splits)

lemma connections_get_disconnect:
  "disconnect cm ws sid = Inr cm' \<Longrightarrow>
     connections_get cm' sid' =
       (if sid' = sid then remove1 ws (connections_get cm sid) else connections_get cm sid')"
  by (auto simp: disconnect_eq connections_get_def split: option.splits if_splits)

lemma hub_inv_disconnect:
  "hub_inv cm \<Longrightarrow> disconnect cm ws sid = Inr cm' \<Longrightarrow> hub_inv cm'"
  by (auto simp: disconnect_eq hub_inv_def split: option.splits if_splits)

lemma hub_inv_connect:
  "hub_inv cm \<Longrightarrow> connect cm w ws sid = Inr (cm', w') \<Longrightarrow> hub_inv cm'"
  by (auto simp: connect_eq hub_inv_def split: if_splits)

lemma disconnect_each_total:
  "\<exists>cm'. disconnect_each cm ds sid = Inr cm'"
  by (induction ds arbitrary: cm) (simp_all add: disconnect_eq)

lemma hub_inv_disconnect_each:
  "hub_inv cm \<Longrightarrow> disconnect_each cm ds sid = Inr cm' \<Longrightarrow> hub_inv cm'"
proof (induction ds arbitrary: cm)
  case Nil
  then show ?case by simp
next
  case (Cons d ds)
  obtain cm1 where 1: "disconnect cm d sid = Inr cm1"
    by (simp add: disconnect_eq)
  with Cons.prems have "hub_inv cm1" by (simp add: hub_inv_disconnect)
  moreover from Cons.prems 1 have "disconnect_each cm1 ds sid = Inr cm'" by simp
  ultimately show ?case by (rule Cons.IH)
qed





lemma send_json_raised:
  "snd (send_json w c m) = (if send_fails w c then Some SendError else None)"
  by (simp add: send_json_def Let_def)


lemma send_json_accept_fails: "accept_fails (fst (send_json w c m)) = accept_fails w"
  by (simp add: send_json_def Let_def)



lemma send_each_step:
  "send_each w (c # cs) m dead =
     send_each (fst (send_json w c m)) cs m (if send_fails w c then dead @ [c] else dead)"
  using send_json_raised [of w c m]
  by (cases "send_json w c m") (auto split: option.splits if_splits)



lemma send_each_accept_fails:
  "accept_fails (fst (send_each w cs m dead)) = accept_fails w"
proof (induction cs arbitrary: w dead)
  case Nil
  show ?case by simp
next
  case (Cons c cs)
  show ?case by (simp only: send_each_step Cons.IH send_json_accept_fails)
qed




lemma send_loop_stop:
  "\<not> i < length (loop_connections sys sid att) \<Longrightarrow>
     send_loop sys sid m att i dead others = (sys, dead, others)"
  by (subst send_loop.simps) simp

lemma send_loop_step:
  "i < length (loop_connections sys sid att) \<Longrightarrow>
     send_loop sys sid m att i dead others =
       send_loop
         (fst (others_watch sid
                 (sys\<lparr>net := fst (send_json (net sys) (loop_connections sys sid att ! i) m)\<rparr>)
                 att (case others of [] \<Rightarrow> [] | ops # _ \<Rightarrow> ops)))
         sid m
         (snd (others_watch sid
                 (sys\<lparr>net := fst (send_json (net sys) (loop_connections sys sid att ! i) m)\<rparr>)
                 att (case others of [] \<Rightarrow> [] | ops # _ \<Rightarrow> ops)))
         (Suc i)
         (if send_fails (net sys) (loop_connections sys sid att ! i)
          then dead @ [loop_connections sys sid att ! i] else dead)
         (tl others)"
  by (subst send_loop.simps) (simp add: split_beta Let_def send_json_raised)




text \<open>
  C5, at an input where the code departs from it. Three sockets are registered for
  the session and the transport of socket 1 has broken. While the send to socket 1 is
  suspended, the endpoint task of socket 1 runs its \<^verbatim>\<open>finally\<close> block and calls
  \<^verbatim>\<open>disconnect\<close>, which removes socket 1 from the list the loop is iterating. The
  loop goes on at position 1 of the shortened list, which holds socket 3: socket 2,
  registered before and after the call and with a working transport, is never
  attempted and receives nothing. The call returns normally.
\<close>

theorem broadcast_skips_subscriber:
  "connections_get (manager (subscribed_system (broken_world 1))) ''s1'' = [1, 2, 3]
   \<and> \<not> send_fails (net (subscribed_system (broken_world 1))) 2
   \<and> \<not> isl skipping_broadcast
   \<and> map fst (send_log (net (fst (projr skipping_broadcast)))) = [1, 3]
   \<and> outbox (net (fst (projr skipping_broadcast))) 2 = []
   \<and> outbox (net (fst (projr skipping_broadcast))) 3
       = [code_update_event ''s1'' ''x = 1'' Python 9]
   \<and> connections_get (manager (fst (projr skipping_broadcast))) ''s1'' = [2, 3]"
  by (simp add: skipping_broadcast_def subscribed_system_def three_subscribers_def
      broken_world_def broadcast_def send_loop_step send_loop_stop loop_connections_def
      connections_get_def disconnect_eq send_json_def Let_def)


lemma other_step_hub_inv:
  "hub_inv (manager sys) \<Longrightarrow> hub_inv (manager (other_step sys op))"
proof (cases op)
  case (Other_connect ws sid)
  assume "hub_inv (manager sys)"
  with Other_connect show ?thesis
    by (auto simp: connect_eq hub_inv_def split: if_splits)
next
  case (Other_disconnect ws sid)
  assume "hub_inv (manager sys)"
  with Other_disconnect show ?thesis
    by (auto simp: disconnect_eq hub_inv_def split: option.splits if_splits)
next
  case (Other_create lang now)
  assume "hub_inv (manager sys)"
  with Other_create show ?thesis by (auto split: option.splits)
qed simp_all

lemma others_watch_hub_inv:
  "hub_inv (manager sys) \<Longrightarrow> hub_inv (manager (fst (others_watch sid sys att ops)))"
  by (induction ops arbitrary: sys att) (simp_all add: other_step_hub_inv)

lemma send_loop_hub_inv:
  "hub_inv (manager sys) \<Longrightarrow>
     hub_inv (manager (fst (send_loop sys sid m att i dead others)))"
proof (induction sys sid m att i dead others rule: send_loop.induct)
  case (1 sys sid m att i dead others)
  show ?case
  proof (cases "i < length (loop_connections sys sid att)")
    case False
    with "1.prems" show ?thesis by (simp add: send_loop_stop)
  next
    case True
    let ?c = "loop_connections sys sid att ! i"
    let ?r = "send_json (net sys) ?c m"
    let ?o = "others_watch sid (sys\<lparr>net := fst ?r\<rparr>) att
                (case others of [] \<Rightarrow> [] | ops # _ \<Rightarrow> ops)"
    from "1.prems" have "hub_inv (manager (sys\<lparr>net := fst ?r\<rparr>))" by simp
    then have inv: "hub_inv (manager (fst ?o))" by (rule others_watch_hub_inv)
    have "hub_inv (manager (fst (send_loop (fst ?o) sid m (snd ?o) (Suc i)
             (case snd ?r of None \<Rightarrow> dead | Some _ \<Rightarrow> dead @ [?c]) (tl others))))"
      using "1.IH" [OF True refl refl prod.collapse refl refl prod.collapse] inv
      by simp
    then show ?thesis
      by (cases "send_fails (net sys) ?c")
         (simp_all add: send_loop_step [OF True] send_json_raised)
  qed
qed

lemma hub_inv_broadcast:
  assumes "hub_inv (manager sys)"
  shows "\<exists>sys' rest. broadcast sys sid m others = Inr (sys', rest) \<and> hub_inv (manager sys')"
proof -
  let ?r = "send_loop sys sid m (manager sys sid \<noteq> None) 0 [] others"
  have inv: "hub_inv (manager (fst ?r))" using assms by (rule send_loop_hub_inv)
  obtain cm' where d: "disconnect_each (manager (fst ?r)) (fst (snd ?r)) sid = Inr cm'"
    using disconnect_each_total by blast
  with inv have "hub_inv cm'" by (rule hub_inv_disconnect_each)
  with d show ?thesis
    by (simp add: broadcast_def split_beta Let_def)
qed

lemma disconnect_unregistered:
  assumes "hub_inv cm" and "ws \<notin> set (connections_get cm sid)"
  shows "disconnect cm ws sid = Inr cm"
proof (cases "cm sid")
  case None
  then show ?thesis by (simp add: disconnect_eq)
next
  case (Some l)
  with assms(2) have "remove1 ws l = l"
    by (simp add: connections_get_def remove1_idem)
  moreover from Some assms(1) have "l \<noteq> []" by (auto simp: hub_inv_def)
  ultimately show ?thesis using Some by (simp add: disconnect_eq map_upd_triv)
qed

lemma remove1_last_occurrence:
  "count_list l x \<le> 1 \<Longrightarrow> x \<notin> set (remove1 x l)"
proof (induction l)
  case Nil
  then show ?case by simp
next
  case (Cons y l)
  show ?case
  proof (cases "x = y")
    case True
    with Cons.prems have "count_list l x = 0" by simp
    with True show ?thesis by (simp add: count_list_0_iff)
  next
    case False
    with Cons show ?thesis by simp
  qed
qed

text \<open>
  C7. \<open>disconnect\<close> never raises. In a registry that holds no empty list (every
  registry the hub's operations produce, see \<open>hub_inv\<close>), \<open>disconnect\<close> of a
  connection that is not registered for the session leaves the registry exactly as
  it was, so every participant count is unchanged; the store is not an argument of
  \<open>disconnect\<close> at all. Hence, for a connection registered at most once (the Gateway
  registers each socket once), a second \<open>disconnect\<close> changes nothing: twice is the
  same as once.
\<close>

theorem disconnect_idempotent:
  assumes "hub_inv cm"
  shows "(\<exists>cm'. disconnect cm ws session_id = Inr cm')
         \<and> (ws \<notin> set (connections_get cm session_id) \<longrightarrow>
              disconnect cm ws session_id = Inr cm)
         \<and> (count_list (connections_get cm session_id) ws \<le> 1 \<longrightarrow>
              (\<exists>cm1. disconnect cm ws session_id = Inr cm1
                     \<and> disconnect cm1 ws session_id = Inr cm1))"
proof -
  obtain cm1 where 1: "disconnect cm ws session_id = Inr cm1"
    by (simp add: disconnect_eq)
  have inv1: "hub_inv cm1" using assms 1 by (rule hub_inv_disconnect)
  have "disconnect cm1 ws session_id = Inr cm1"
    if "count_list (connections_get cm session_id) ws \<le> 1"
  proof -
    from that have "ws \<notin> set (remove1 ws (connections_get cm session_id))"
      by (rule remove1_last_occurrence)
    with connections_get_disconnect [OF 1, of session_id]
    have "ws \<notin> set (connections_get cm1 session_id)" by simp
    with inv1 show ?thesis by (rule disconnect_unregistered)
  qed
  with 1 assms show ?thesis
    by (auto simp: disconnect_unregistered)
qed

lemma count_zero_iff:
  "hub_inv cm \<Longrightarrow> (get_participant_count cm sid = 0) = (cm sid = None)"
  by (auto simp: get_participant_count_def connections_get_def hub_inv_def split: option.splits)

text \<open>
  C10. The empty registry holds no empty connection list, and from a registry that
  holds none: a successful \<open>connect\<close> gives one that holds none; \<open>disconnect\<close> returns
  normally and gives one that holds none, deleting the entry when it removes the
  last connection; \<open>broadcast\<close> returns normally and gives one that holds none,
  whatever steps other tasks take while its sends are suspended. Consequently
  \<open>get_participant_count\<close> is 0 exactly for the session ids with no entry, and it is
  0 for every id in the empty registry.
\<close>

theorem registry_never_holds_empty_list:
  assumes "hub_inv cm"
  shows "hub_inv Map.empty
         \<and> (\<forall>cm' w'. connect cm w ws session_id = Inr (cm', w') \<longrightarrow> hub_inv cm')
         \<and> (\<exists>cm'. disconnect cm ws session_id = Inr cm' \<and> hub_inv cm')
         \<and> (cm session_id = Some [ws] \<longrightarrow>
               disconnect cm ws session_id = Inr (cm(session_id := None)))
         \<and> (\<exists>sys' rest.
               broadcast \<lparr>repo = st, manager = cm, net = w\<rparr> session_id message others
                 = Inr (sys', rest)
               \<and> hub_inv (manager sys'))
         \<and> ((get_participant_count cm session_id = 0) = (cm session_id = None))
         \<and> get_participant_count Map.empty session_id = 0"
proof -
  have e: "hub_inv Map.empty" by (simp add: hub_inv_def)
  obtain cm1 where 1: "disconnect cm ws session_id = Inr cm1"
    by (simp add: disconnect_eq)
  with assms have d: "\<exists>cm'. disconnect cm ws session_id = Inr cm' \<and> hub_inv cm'"
    by (auto intro: hub_inv_disconnect)
  have l: "cm session_id = Some [ws] \<longrightarrow>
             disconnect cm ws session_id = Inr (cm(session_id := None))"
    by (simp add: disconnect_eq)
  have z: "get_participant_count Map.empty session_id = 0"
    by (simp add: get_participant_count_def connections_get_def)
  from assms have "hub_inv (manager \<lparr>repo = st, manager = cm, net = w\<rparr>)" by simp
  from assms e d l z hub_inv_broadcast [OF this, of session_id message others]
    count_zero_iff [OF assms, of session_id]
  show ?thesis by (auto intro: hub_inv_connect)
qed

lemma hub_inv_three_subscribers: "hub_inv three_subscribers"
  by (simp add: hub_inv_def three_subscribers_def)

theorem disconnect_idempotent_witness:
  "hub_inv three_subscribers
   \<and> 7 \<notin> set (connections_get three_subscribers ''s1'')
   \<and> disconnect three_subscribers 7 ''s1'' = Inr three_subscribers
   \<and> count_list (connections_get three_subscribers ''s1'') 2 \<le> 1
   \<and> (\<exists>cm1. disconnect three_subscribers 2 ''s1'' = Inr cm1
             \<and> disconnect cm1 2 ''s1'' = Inr cm1)"
proof -
  have c: "connections_get three_subscribers ''s1'' = [1, 2, 3]"
    by (simp add: three_subscribers_def connections_get_def)
  from disconnect_idempotent [OF hub_inv_three_subscribers, of 7 "''s1''"]
       disconnect_idempotent [OF hub_inv_three_subscribers, of 2 "''s1''"]
       hub_inv_three_subscribers
  show ?thesis by (simp add: c)
qed

theorem registry_never_holds_empty_list_witness:
  "hub_inv three_subscribers
   \<and> connect three_subscribers quiet_world 4 ''s2''
       = Inr (three_subscribers(''s2'' \<mapsto> [4]), quiet_world)
   \<and> hub_inv (three_subscribers(''s2'' \<mapsto> [4]))
   \<and> (\<exists>cm'. disconnect three_subscribers 1 ''s1'' = Inr cm' \<and> hub_inv cm')
   \<and> (\<exists>sys' rest. broadcast (subscribed_system (broken_world 2)) ''s1''
                    (participant_joined_event ''s1'' 3 9) [[Other_disconnect 1 ''s1'']]
                    = Inr (sys', rest) \<and> hub_inv (manager sys'))
   \<and> get_participant_count three_subscribers ''s1'' = 3
   \<and> get_participant_count three_subscribers ''never-connected'' = 0
   \<and> hub_inv [''s2'' \<mapsto> [4]]
   \<and> disconnect [''s2'' \<mapsto> [4]] 4 ''s2'' = Inr Map.empty"
proof -
  have o: "hub_inv [''s2'' \<mapsto> [4::nat]]"
    by (simp add: hub_inv_def)
  have c: "connect three_subscribers quiet_world 4 ''s2''
             = Inr (three_subscribers(''s2'' \<mapsto> [4]), quiet_world)"
    by (simp add: connect_eq quiet_world_def connections_get_def three_subscribers_def)
  have n: "get_participant_count three_subscribers ''s1'' = 3"
    by (simp add: get_participant_count_def connections_get_def three_subscribers_def)
  have z: "three_subscribers ''never-connected'' = None"
    by (simp add: three_subscribers_def)
  have s: "subscribed_system (broken_world 2)
             = \<lparr>repo = fresh_store, manager = three_subscribers, net = broken_world 2\<rparr>"
    by (simp add: subscribed_system_def)
  from registry_never_holds_empty_list
         [OF hub_inv_three_subscribers, of quiet_world 4 "''s2''"]
       registry_never_holds_empty_list
         [OF hub_inv_three_subscribers, of "broken_world 2" 1 "''s1''" fresh_store
            "participant_joined_event ''s1'' 3 9" "[[Other_disconnect 1 ''s1'']]"]
       registry_never_holds_empty_list
         [OF hub_inv_three_subscribers, of quiet_world 1 "''never-connected''"]
       registry_never_holds_empty_list [OF o, of quiet_world 4 "''s2''"]
       hub_inv_three_subscribers c n z o
  show ?thesis by (simp add: s)
qed

section \<open>Gateway: the hub's count and the store's counter\<close>




















text \<open>The equations that evaluate the Gateway's sequences on concrete systems.\<close>

lemmas gateway_eval =
  fresh_system_def fresh_store_def quiet_world_def broken_world_def example_run_def
  websocket_endpoint_connect_def websocket_endpoint_finally_def put_code_def
  sessions_update_code_def update_code_others_def repository_update_def
  connect_eq broadcast_participant_joined_def broadcast_participant_left_def
  broadcast_code_update_def broadcast_def send_loop_step send_loop_stop
  loop_connections_def disconnect_eq send_json_def
  get_session_def repository_get_def
  add_participant_def increment_participants_def remove_participant_def
  decrement_participants_def participants_or_0_def
  get_participant_count_def connections_get_def Let_def


text \<open>
  The sequences also have to be served one at a time. One socket is connected (hub
  count 1, counter 1, no send fails). A \<^verbatim>\<open>PUT\<close> fetches the session; while it is
  suspended after the fetch, the socket's \<^verbatim>\<open>finally\<close> block disconnects it and
  decrements the counter to 0; the \<^verbatim>\<open>PUT\<close> then writes back its copy of the record,
  counter 1 included. The hub counts 0 and the store's counter is 1.
\<close>

lemma stale_update_overwrites_decrement:
  "counts_agree connected_system ''s1''
   \<and> get_participant_count (manager connected_system) ''s1'' = 1
   \<and> send_fails (net connected_system) = (\<lambda>_. False)
   \<and> get_participant_count (manager interleaved_put) ''s1'' = 0
   \<and> participants_or_0 (get_session (repo interleaved_put) ''s1'') = 1"
  by (simp add: counts_agree_def connected_system_def interleaved_put_def gateway_eval)






end
